theory Spec2Isabelle
  imports Main "HOL-Library.Word"
begin

section \<open>The replication policy model of \<^verbatim>\<open>src/replication/ng/model/policy.go\<close>\<close>

subsection \<open>Constants\<close>

text \<open>
  \<^verbatim>\<open>FilterType\<close> and \<^verbatim>\<open>TriggerType\<close> are Go string types; the constants of the
  \<^verbatim>\<open>const\<close> block are string literals.
\<close>

type_synonym FilterType = string

type_synonym TriggerType = string

definition FilterTypeResource :: FilterType where
  "FilterTypeResource = ''resource''"

definition FilterTypeName :: FilterType where
  "FilterTypeName = ''name''"

definition FilterTypeTag :: FilterType where
  "FilterTypeTag = ''tag''"

definition FilterTypeLabel :: FilterType where
  "FilterTypeLabel = ''label''"

definition TriggerTypeManual :: TriggerType where
  "TriggerTypeManual = ''manual''"

definition TriggerTypeScheduled :: TriggerType where
  "TriggerTypeScheduled = ''scheduled''"

definition TriggerTypeEventBased :: TriggerType where
  "TriggerTypeEventBased = ''event_based''"

subsection \<open>Data\<close>

text \<open>
  \<^verbatim>\<open>Filter.Value\<close> is an \<^verbatim>\<open>interface{}\<close>: its type is a parameter \<open>'a\<close> of the
  model. \<^verbatim>\<open>time.Time\<close> is a struct of the standard library: its type is the
  parameter \<open>'t\<close>. \<^verbatim>\<open>int64\<close> is a 64-bit word. A Go pointer that may be \<^verbatim>\<open>nil\<close>
  is an \<open>option\<close>, \<open>None\<close> for \<^verbatim>\<open>nil\<close>: \<^verbatim>\<open>Trigger\<close> is a \<^verbatim>\<open>*Trigger\<close>,
  \<^verbatim>\<open>Settings\<close> a \<^verbatim>\<open>*TriggerSettings\<close>, and \<^verbatim>\<open>Filters\<close> a slice \<^verbatim>\<open>[]*Filter\<close> of
  pointers, each of which may be \<^verbatim>\<open>nil\<close>. A \<^verbatim>\<open>nil\<close> slice and an empty slice both
  have length 0 and are the empty list.
\<close>

record 'a Filter =
  Type :: FilterType
  Value :: 'a

record TriggerSettings =
  Cron :: string

record Trigger =
  Type :: TriggerType
  Settings :: "TriggerSettings option"

record ('a, 't) Policy =
  ID :: "64 word"
  Name :: string
  Description :: string
  Creator :: string
  SrcRegistryID :: "64 word"
  SrcNamespaces :: "string list"
  DestRegistryID :: "64 word"
  DestNamespace :: string
  Filters :: "'a Filter option list"
  Trigger :: "Trigger option"
  Deletion :: bool
  Override :: bool
  Enabled :: bool
  CreationTime :: 't
  UpdateTime :: 't

subsection \<open>The error accumulator\<close>

text \<open>
  Modelled from the spec: \<^verbatim>\<open>validation.Validation\<close> and its method \<^verbatim>\<open>SetError\<close>
  belong to the beego library, which is not part of the source. The spec describes
  them as an error accumulator \<^verbatim>\<open>report(field, message)\<close>: each violation is a
  field-tagged message, and the accumulated errors are handed to the caller in the
  order in which they were reported. An error is the pair of the field name and the
  message; \<open>SetError\<close> appends one error to the sequence.
\<close>

record Error =
  Field :: string
  Message :: string

record Validation =
  Errors :: "Error list"

definition SetError :: "string \<Rightarrow> string \<Rightarrow> Validation \<Rightarrow> Validation" where
  "SetError fieldName errMsg v =
     v\<lparr>Errors := Errors v @ [\<lparr>Field = fieldName, Message = errMsg\<rparr>]\<rparr>"

subsection \<open>The call \<^verbatim>\<open>p.Valid(v)\<close>\<close>

text \<open>
  \<^verbatim>\<open>Valid\<close> has a pointer receiver \<^verbatim>\<open>p *Policy\<close> and a pointer argument
  \<^verbatim>\<open>v *validation.Validation\<close>, and returns nothing: what it does, it does to the two
  objects behind these pointers. The state of a call is the pair of the two objects.
  Both pointers point to an object: a call on a \<^verbatim>\<open>nil\<close> receiver or with a \<^verbatim>\<open>nil\<close>
  accumulator is not a call on a policy, and is not modelled.
\<close>

record ('a, 't) heap =
  receiver :: "('a, 't) Policy"
  validation :: Validation

text \<open>
  A call either returns or panics. The only panic of \<^verbatim>\<open>Valid\<close> is the nil pointer
  dereference \<^verbatim>\<open>filter.Type\<close> of line 97, on a \<^verbatim>\<open>nil\<close> element of \<^verbatim>\<open>p.Filters\<close>:
  the dereferences of \<^verbatim>\<open>p.Trigger\<close> and \<^verbatim>\<open>p.Trigger.Settings\<close> are guarded by the
  \<^verbatim>\<open>nil\<close> tests of lines 107 and 114. What was written to \<^verbatim>\<open>*v\<close> before a panic
  stays written.
\<close>

datatype outcome = Normal | Panic

text \<open>
  Lines 87 to 92: the loop over \<^verbatim>\<open>p.SrcNamespaces\<close>, which leaves by \<^verbatim>\<open>break\<close> at
  the first namespace of length 0.
\<close>

fun namespaces_loop :: "string list \<Rightarrow> Validation \<Rightarrow> Validation" where
  "namespaces_loop [] v = v"
| "namespaces_loop (namespace # rest) v =
     (if length namespace = 0
      then SetError ''src_namespaces'' ''cannot contain empty namespace'' v
      else namespaces_loop rest v)"

text \<open>
  Lines 96 to 104: the loop over \<^verbatim>\<open>p.Filters\<close>. Reading \<^verbatim>\<open>filter.Type\<close> through a
  \<^verbatim>\<open>nil\<close> pointer panics; the loop leaves by \<^verbatim>\<open>break\<close> at the first filter whose type
  is none of the four constants.
\<close>

fun filters_loop :: "'a Filter option list \<Rightarrow> Validation \<Rightarrow> outcome \<times> Validation" where
  "filters_loop [] v = (Normal, v)"
| "filters_loop (None # rest) v = (Panic, v)"
| "filters_loop (Some f # rest) v =
     (if Filter.Type f \<noteq> FilterTypeResource \<and>
         Filter.Type f \<noteq> FilterTypeName \<and>
         Filter.Type f \<noteq> FilterTypeTag \<and>
         Filter.Type f \<noteq> FilterTypeLabel
      then (Normal, SetError ''filters'' ''invalid filter type'' v)
      else filters_loop rest v)"

text \<open>
  Lines 107 to 117: the two tests on a trigger that is not \<^verbatim>\<open>nil\<close>. The disjunction
  of line 114 reads \<^verbatim>\<open>Settings.Cron\<close> only when \<^verbatim>\<open>Settings\<close> is not \<^verbatim>\<open>nil\<close>.
  \<^verbatim>\<open>fmt.Sprintf\<close> puts the constant in the place of \<^verbatim>\<open>%s\<close>, at the end of the message.
\<close>

definition trigger_checks :: "Trigger option \<Rightarrow> Validation \<Rightarrow> Validation" where
  "trigger_checks tr v =
     (case tr of
        None \<Rightarrow> v
      | Some t \<Rightarrow>
          (let v1 = (if Trigger.Type t \<noteq> TriggerTypeManual \<and>
                        Trigger.Type t \<noteq> TriggerTypeScheduled \<and>
                        Trigger.Type t \<noteq> TriggerTypeEventBased
                     then SetError ''trigger'' ''invalid trigger type'' v
                     else v)
           in if Trigger.Type t = TriggerTypeScheduled \<and>
                 (case Settings t of None \<Rightarrow> True | Some s \<Rightarrow> length (Cron s) = 0)
              then SetError ''trigger''
                     (''the cron string cannot be empty when the trigger type is '' @
                      TriggerTypeScheduled) v1
              else v1))"

text \<open>
  Lines 72 to 118. The checks run in the order of the source, each on the accumulator
  the one before left; a panic in the loop over the filters ends the call before the
  trigger is looked at.
\<close>

definition Valid :: "('a, 't) heap \<Rightarrow> outcome \<times> ('a, 't) heap" where
  "Valid h =
     (let p = receiver h;
          v0 = validation h;
          v1 = (if length (Name p) = 0
                then SetError ''name'' ''cannot be empty'' v0
                else v0);
          v2 = (if SrcRegistryID p \<noteq> 0 \<and> DestRegistryID p \<noteq> 0 \<or>
                   SrcRegistryID p = 0 \<and> DestRegistryID p = 0
                then SetError ''src_registry_id, dest_registry_id''
                       ''one of them should be empty and the other one shouldn't be empty'' v1
                else v1);
          v3 = (if length (SrcNamespaces p) = 0
                then SetError ''src_namespaces'' ''cannot be empty'' v2
                else namespaces_loop (SrcNamespaces p) v2)
      in case filters_loop (Filters p) v3 of
           (Panic, v4) \<Rightarrow> (Panic, h\<lparr>validation := v4\<rparr>)
         | (Normal, v4) \<Rightarrow> (Normal, h\<lparr>validation := trigger_checks (Trigger p) v4\<rparr>))"

text \<open>
  What a call reports: the errors that stand in the accumulator after the call behind
  those that stood there before it.
\<close>

definition reported :: "('a, 't) heap \<Rightarrow> Error list" where
  "reported h =
     drop (length (Errors (validation h))) (Errors (validation (snd (Valid h))))"

text \<open>
  Where the loop over the filters stops, for the statements below: at a \<^verbatim>\<open>nil\<close>
  pointer (by the panic), or at a filter whose type is none of the four constants (by
  the \<^verbatim>\<open>break\<close>).
\<close>

definition stops :: "'a Filter option \<Rightarrow> bool" where
  "stops x =
     (case x of
        None \<Rightarrow> True
      | Some f \<Rightarrow>
          Filter.Type f \<notin>
            {FilterTypeResource, FilterTypeName, FilterTypeTag, FilterTypeLabel})"

subsection \<open>The policies of the end-to-end examples\<close>

text \<open>
  The Go composite literals of the two end-to-end examples. A field that a literal
  leaves out has the zero value of its type; \<open>t0\<close> stands for the zero \<^verbatim>\<open>time.Time\<close>.
\<close>

definition policy_p1 :: "'t \<Rightarrow> ('a, 't) Policy" where
  "policy_p1 t0 =
     \<lparr>ID = 0, Name = ''p1'', Description = [], Creator = [],
      SrcRegistryID = 0, SrcNamespaces = [''library''], DestRegistryID = 5,
      DestNamespace = [], Filters = [], Trigger = None,
      Deletion = False, Override = False, Enabled = False,
      CreationTime = t0, UpdateTime = t0\<rparr>"

definition policy_blank :: "'t \<Rightarrow> ('a, 't) Policy" where
  "policy_blank t0 =
     \<lparr>ID = 0, Name = [], Description = [], Creator = [],
      SrcRegistryID = 0, SrcNamespaces = [], DestRegistryID = 0,
      DestNamespace = [], Filters = [], Trigger = None,
      Deletion = False, Override = False, Enabled = False,
      CreationTime = t0, UpdateTime = t0\<rparr>"

section \<open>What a call does to the accumulator\<close>

lemmas consts_defs = FilterTypeResource_def FilterTypeName_def FilterTypeTag_def FilterTypeLabel_def
  TriggerTypeManual_def TriggerTypeScheduled_def TriggerTypeEventBased_def

lemma Errors_SetError: "Errors (SetError f m v) = Errors v @ [\<lparr>Field = f, Message = m\<rparr>]"
  by (simp add: SetError_def)

lemma namespaces_loop_eq:
  "namespaces_loop ns v =
     (if [] \<in> set ns then SetError ''src_namespaces'' ''cannot contain empty namespace'' v else v)"
  by (induction ns) auto

lemma filters_loop_find:
  "filters_loop fs v =
     (case find stops fs of
        None \<Rightarrow> (Normal, v)
      | Some None \<Rightarrow> (Panic, v)
      | Some (Some f) \<Rightarrow> (Normal, SetError ''filters'' ''invalid filter type'' v))"
proof (induction fs)
  case Nil
  show ?case by simp
next
  case (Cons x fs)
  show ?case
  proof (cases x)
    case None
    then show ?thesis by (simp add: stops_def)
  next
    case (Some f)
    with Cons show ?thesis by (simp add: stops_def)
  qed
qed


lemma Errors_if_SetError:
  "Errors (if c then SetError f m v else v) =
     Errors v @ (if c then [\<lparr>Field = f, Message = m\<rparr>] else [])"
  by (cases c) (simp_all only: Errors_SetError if_True if_False append_Nil2)

lemma Errors_if_else:
  "Errors w = Errors v @ es \<Longrightarrow> Errors (if c then v else w) = Errors v @ (if c then [] else es)"
  by simp

lemma drop_prefix: "ys = xs @ zs \<Longrightarrow> drop (length xs) ys = zs"
  by simp

lemma Errors_namespaces_loop:
  "Errors (namespaces_loop ns v) =
     Errors v @ (if [] \<in> set ns
                 then [\<lparr>Field = ''src_namespaces'', Message = ''cannot contain empty namespace''\<rparr>]
                 else [])"
  by (simp add: namespaces_loop_eq Errors_SetError)

lemma fst_filters_loop:
  "fst (filters_loop fs v) = (if find stops fs = Some None then Panic else Normal)"
  by (simp add: filters_loop_find split: option.splits)

lemma Errors_filters_loop:
  "Errors (snd (filters_loop fs v)) =
     Errors v @ (case find stops fs of
                   Some (Some f) \<Rightarrow> [\<lparr>Field = ''filters'', Message = ''invalid filter type''\<rparr>]
                 | _ \<Rightarrow> [])"
  by (simp add: filters_loop_find Errors_SetError split: option.splits)

lemma Errors_trigger_checks:
  "Errors (trigger_checks tr v) =
     Errors v @
     (case tr of
        None \<Rightarrow> []
      | Some t \<Rightarrow>
          (if Trigger.Type t \<notin> {TriggerTypeManual, TriggerTypeScheduled, TriggerTypeEventBased}
           then [\<lparr>Field = ''trigger'', Message = ''invalid trigger type''\<rparr>] else []) @
          (if Trigger.Type t = TriggerTypeScheduled \<and>
              (case Settings t of None \<Rightarrow> True | Some s \<Rightarrow> Cron s = [])
           then [\<lparr>Field = ''trigger'',
                  Message = ''the cron string cannot be empty when the trigger type is scheduled''\<rparr>]
           else []))"
proof (cases tr)
  case None
  then show ?thesis by (simp add: trigger_checks_def)
next
  case (Some t)
  have msg: "''the cron string cannot be empty when the trigger type is '' @ TriggerTypeScheduled =
             ''the cron string cannot be empty when the trigger type is scheduled''"
    by (simp add: TriggerTypeScheduled_def)
  show ?thesis
    unfolding trigger_checks_def Let_def msg Some option.case
    by (simp only: Errors_SetError length_0_conv insert_iff empty_iff de_Morgan_disj append_assoc
        if_distrib [of Errors] if_distrib [of "\<lambda>x. x @ _"] split: if_splits) auto
qed


lemma fst_Valid:
  "fst (Valid h) = (if find stops (Filters (receiver h)) = Some None then Panic else Normal)"
proof -
  have "fst (case filters_loop fs v of (Panic, v4) \<Rightarrow> (Panic, a v4) | (Normal, v4) \<Rightarrow> (Normal, b v4)) =
        fst (filters_loop fs v)" for fs :: "'a Filter option list" and v and a b :: "Validation \<Rightarrow> ('a, 'b) heap"
    by (cases "filters_loop fs v") (simp split: outcome.splits)
  then show ?thesis
    unfolding Valid_def Let_def by (simp only: fst_filters_loop)
qed

lemma snd_Valid:
  "snd (Valid h) =
     h\<lparr>validation :=
         (let v3 = snd (filters_loop (Filters (receiver h))
                    (let v1 = (if length (Name (receiver h)) = 0
                               then SetError ''name'' ''cannot be empty'' (validation h)
                               else validation h);
                         v2 = (if SrcRegistryID (receiver h) \<noteq> 0 \<and> DestRegistryID (receiver h) \<noteq> 0 \<or>
                                  SrcRegistryID (receiver h) = 0 \<and> DestRegistryID (receiver h) = 0
                               then SetError ''src_registry_id, dest_registry_id''
                                  ''one of them should be empty and the other one shouldn't be empty'' v1
                               else v1)
                     in if length (SrcNamespaces (receiver h)) = 0
                        then SetError ''src_namespaces'' ''cannot be empty'' v2
                        else namespaces_loop (SrcNamespaces (receiver h)) v2))
          in if find stops (Filters (receiver h)) = Some None then v3
             else trigger_checks (Trigger (receiver h)) v3)\<rparr>"
proof -
  have "snd (case filters_loop fs v of (Panic, v4) \<Rightarrow> (Panic, a v4) | (Normal, v4) \<Rightarrow> (Normal, b v4)) =
        (if find stops fs = Some None then a (snd (filters_loop fs v)) else b (snd (filters_loop fs v)))"
    for fs :: "'a Filter option list" and v and a b :: "Validation \<Rightarrow> ('a, 'b) heap"
    using fst_filters_loop [of fs v]
    by (cases "filters_loop fs v") (simp split: outcome.splits if_splits)
  then show ?thesis
    unfolding Valid_def Let_def by (simp only: if_distrib [of "\<lambda>v. h\<lparr>validation := v\<rparr>"])
qed

lemma reported_eq:
  shows "reported h =
     (if Name (receiver h) = [] then [\<lparr>Field = ''name'', Message = ''cannot be empty''\<rparr>] else []) @
     (if SrcRegistryID (receiver h) \<noteq> 0 \<and> DestRegistryID (receiver h) \<noteq> 0 \<or>
         SrcRegistryID (receiver h) = 0 \<and> DestRegistryID (receiver h) = 0
      then [\<lparr>Field = ''src_registry_id, dest_registry_id'',
             Message = ''one of them should be empty and the other one shouldn't be empty''\<rparr>]
      else []) @
     (if SrcNamespaces (receiver h) = [] then [\<lparr>Field = ''src_namespaces'', Message = ''cannot be empty''\<rparr>]
      else if [] \<in> set (SrcNamespaces (receiver h))
      then [\<lparr>Field = ''src_namespaces'', Message = ''cannot contain empty namespace''\<rparr>]
      else []) @
     (case find stops (Filters (receiver h)) of
        Some (Some f) \<Rightarrow> [\<lparr>Field = ''filters'', Message = ''invalid filter type''\<rparr>]
      | _ \<Rightarrow> []) @
     (if find stops (Filters (receiver h)) = Some None then []
      else case Trigger (receiver h) of
             None \<Rightarrow> []
           | Some t \<Rightarrow>
               (if Trigger.Type t \<notin> {TriggerTypeManual, TriggerTypeScheduled, TriggerTypeEventBased}
                then [\<lparr>Field = ''trigger'', Message = ''invalid trigger type''\<rparr>] else []) @
               (if Trigger.Type t = TriggerTypeScheduled \<and>
                   (case Settings t of None \<Rightarrow> True | Some s \<Rightarrow> Cron s = [])
                then [\<lparr>Field = ''trigger'',
                       Message = ''the cron string cannot be empty when the trigger type is scheduled''\<rparr>]
                else []))"
  (is "_ = ?A @ ?B @ ?C @ ?D @ ?E")
    and Errors_Valid: "Errors (validation (snd (Valid h))) = Errors (validation h) @ reported h"
proof -
  define v0 where "v0 = validation h"
  define v1 where "v1 = (if length (Name (receiver h)) = 0
                               then SetError ''name'' ''cannot be empty'' v0 else v0)"
  define v2 where "v2 = (if SrcRegistryID (receiver h) \<noteq> 0 \<and> DestRegistryID (receiver h) \<noteq> 0 \<or>
                                  SrcRegistryID (receiver h) = 0 \<and> DestRegistryID (receiver h) = 0
                               then SetError ''src_registry_id, dest_registry_id''
                                  ''one of them should be empty and the other one shouldn't be empty'' v1
                               else v1)"
  define v3 where "v3 = (if length (SrcNamespaces (receiver h)) = 0
                        then SetError ''src_namespaces'' ''cannot be empty'' v2
                        else namespaces_loop (SrcNamespaces (receiver h)) v2)"
  define v4 where "v4 = snd (filters_loop (Filters (receiver h)) v3)"
  define v5 where "v5 = (if find stops (Filters (receiver h)) = Some None then v4
             else trigger_checks (Trigger (receiver h)) v4)"
  have e1: "Errors v1 = Errors v0 @ ?A"
    unfolding v1_def length_0_conv by (rule Errors_if_SetError)
  have e2: "Errors v2 = Errors v1 @ ?B"
    unfolding v2_def by (rule Errors_if_SetError)
  have e3: "Errors v3 = Errors v2 @ ?C"
    unfolding v3_def by (simp add: Errors_SetError Errors_namespaces_loop)
  have e4: "Errors v4 = Errors v3 @ ?D"
    unfolding v4_def by (rule Errors_filters_loop)
  have e5: "Errors v5 = Errors v4 @ ?E"
    unfolding v5_def
    by (rule Errors_if_else) (rule Errors_trigger_checks)
  have "snd (Valid h) = h\<lparr>validation := v5\<rparr>"
    unfolding snd_Valid v5_def v4_def v3_def v2_def v1_def v0_def Let_def ..
  then have "Errors (validation (snd (Valid h))) = Errors v5"
    by simp
  also have "\<dots> = Errors v0 @ ?A @ ?B @ ?C @ ?D @ ?E"
    by (simp only: e1 e2 e3 e4 e5 append_assoc)
  finally have all: "Errors (validation (snd (Valid h))) =
      Errors (validation h) @ ?A @ ?B @ ?C @ ?D @ ?E"
    unfolding v0_def .
  then show eq: "reported h = ?A @ ?B @ ?C @ ?D @ ?E"
    unfolding reported_def by (rule drop_prefix)
  show "Errors (validation (snd (Valid h))) = Errors (validation h) @ reported h"
    unfolding eq by (rule all)
qed


lemma Validation_eqI: "Errors v = Errors w \<Longrightarrow> v = w" for v w :: Validation
  by (cases v, cases w) simp

subsection \<open>The errors of one field\<close>

text \<open>
  The errors that a call reports under one field name, read off \<open>reported_eq\<close>.
\<close>

lemma Bex_filter_conv: "(\<exists>e\<in>set xs. P e) \<longleftrightarrow> filter P xs \<noteq> []"
  by (simp add: filter_empty_conv)

lemma reported_registry:
  "filter (\<lambda>e. Field e = ''src_registry_id, dest_registry_id'') (reported h) =
     (if SrcRegistryID (receiver h) \<noteq> 0 \<and> DestRegistryID (receiver h) \<noteq> 0 \<or>
         SrcRegistryID (receiver h) = 0 \<and> DestRegistryID (receiver h) = 0
      then [\<lparr>Field = ''src_registry_id, dest_registry_id'',
             Message = ''one of them should be empty and the other one shouldn't be empty''\<rparr>]
      else [])"
  unfolding reported_eq
  by (simp split: option.splits)

lemma reported_src_namespaces:
  "filter (\<lambda>e. Field e = ''src_namespaces'') (reported h) =
     (if SrcNamespaces (receiver h) = []
      then [\<lparr>Field = ''src_namespaces'', Message = ''cannot be empty''\<rparr>]
      else if [] \<in> set (SrcNamespaces (receiver h))
      then [\<lparr>Field = ''src_namespaces'', Message = ''cannot contain empty namespace''\<rparr>]
      else [])"
  unfolding reported_eq
  by (simp split: option.splits)

lemma reported_filters:
  "filter (\<lambda>e. Field e = ''filters'') (reported h) =
     (case find stops (Filters (receiver h)) of
        Some (Some f) \<Rightarrow> [\<lparr>Field = ''filters'', Message = ''invalid filter type''\<rparr>]
      | _ \<Rightarrow> [])"
  unfolding reported_eq
  by (simp split: option.splits)

lemma reported_trigger:
  "filter (\<lambda>e. Field e = ''trigger'') (reported h) =
     (if find stops (Filters (receiver h)) = Some None then []
      else case Trigger (receiver h) of
             None \<Rightarrow> []
           | Some t \<Rightarrow>
               if Trigger.Type t \<notin> {TriggerTypeManual, TriggerTypeScheduled, TriggerTypeEventBased}
               then [\<lparr>Field = ''trigger'', Message = ''invalid trigger type''\<rparr>]
               else if Trigger.Type t = TriggerTypeScheduled \<and>
                       (case Settings t of None \<Rightarrow> True | Some s \<Rightarrow> Cron s = [])
               then [\<lparr>Field = ''trigger'',
                      Message = ''the cron string cannot be empty when the trigger type is scheduled''\<rparr>]
               else [])"
  unfolding reported_eq
  by (simp split: option.splits)

lemma reported_trigger_cases:
  "filter (\<lambda>e. Field e = ''trigger'') (reported h) = [] \<or>
   filter (\<lambda>e. Field e = ''trigger'') (reported h) =
     [\<lparr>Field = ''trigger'', Message = ''invalid trigger type''\<rparr>] \<or>
   filter (\<lambda>e. Field e = ''trigger'') (reported h) =
     [\<lparr>Field = ''trigger'',
       Message = ''the cron string cannot be empty when the trigger type is scheduled''\<rparr>]"
  unfolding reported_trigger by (simp split: option.splits)

lemma not_both_trigger_errors:
  "\<not> (\<lparr>Field = ''trigger'', Message = ''invalid trigger type''\<rparr> \<in> set (reported h) \<and>
      \<lparr>Field = ''trigger'',
       Message = ''the cron string cannot be empty when the trigger type is scheduled''\<rparr>
        \<in> set (reported h))"
proof
  assume "\<lparr>Field = ''trigger'', Message = ''invalid trigger type''\<rparr> \<in> set (reported h) \<and>
      \<lparr>Field = ''trigger'',
       Message = ''the cron string cannot be empty when the trigger type is scheduled''\<rparr>
        \<in> set (reported h)"
  then have "\<lparr>Field = ''trigger'', Message = ''invalid trigger type''\<rparr>
                 \<in> set (filter (\<lambda>e. Field e = ''trigger'') (reported h))"
    and "\<lparr>Field = ''trigger'',
         Message = ''the cron string cannot be empty when the trigger type is scheduled''\<rparr>
          \<in> set (filter (\<lambda>e. Field e = ''trigger'') (reported h))"
    by simp_all
  with reported_trigger_cases [of h] show False
    by (elim disjE) simp_all
qed

subsection \<open>Calls that return\<close>

text \<open>
  A call on a policy whose \<^verbatim>\<open>Filters\<close> hold no \<^verbatim>\<open>nil\<close> pointer returns, and reports
  the error of the filters once when one of them has a type outside the four constants,
  and not at all otherwise. A call that returns on a policy with a scheduled trigger
  reports the error of the cron string exactly when the trigger has no settings or an
  empty cron string.
\<close>

lemma find_stops_no_nil:
  "None \<notin> set fs \<Longrightarrow>
     find stops fs \<noteq> Some None \<and>
     (find stops fs = None \<longleftrightarrow>
        (\<forall>f. Some f \<in> set fs \<longrightarrow>
           Filter.Type f \<in> {FilterTypeResource, FilterTypeName, FilterTypeTag, FilterTypeLabel}))"
proof (induction fs)
  case Nil
  show ?case by simp
next
  case (Cons x fs)
  then obtain f where x: "x = Some f" by (cases x) auto
  from Cons have "None \<notin> set fs" by simp
  with Cons.IH x show ?case
    by (auto simp: stops_def)
qed

lemma filters_error_once_without_nil:
  assumes "None \<notin> set (Filters (receiver h))"
  shows "fst (Valid h) = Normal"
    and "filter (\<lambda>e. Field e = ''filters'') (reported h) =
      (if \<exists>f. Some f \<in> set (Filters (receiver h)) \<and>
              Filter.Type f \<notin> {FilterTypeResource, FilterTypeName, FilterTypeTag, FilterTypeLabel}
       then [\<lparr>Field = ''filters'', Message = ''invalid filter type''\<rparr>]
       else [])"
proof -
  note fs = find_stops_no_nil [OF assms]
  from fs show "fst (Valid h) = Normal"
    by (simp add: fst_Valid)
  show "filter (\<lambda>e. Field e = ''filters'') (reported h) =
      (if \<exists>f. Some f \<in> set (Filters (receiver h)) \<and>
              Filter.Type f \<notin> {FilterTypeResource, FilterTypeName, FilterTypeTag, FilterTypeLabel}
       then [\<lparr>Field = ''filters'', Message = ''invalid filter type''\<rparr>]
       else [])"
  proof (cases "find stops (Filters (receiver h))")
    case None
    with fs show ?thesis
      unfolding reported_filters by auto
  next
    case (Some x)
    with fs obtain f where "x = Some f" by (cases x) auto
    with Some fs show ?thesis
      unfolding reported_filters by auto
  qed
qed

lemma scheduled_trigger_when_returning:
  assumes "fst (Valid h) = Normal"
    and "Trigger (receiver h) = Some t"
    and "Trigger.Type t = TriggerTypeScheduled"
  shows "filter (\<lambda>e. Field e = ''trigger'') (reported h) =
     (if (case Settings t of None \<Rightarrow> True | Some s \<Rightarrow> Cron s = [])
      then [\<lparr>Field = ''trigger'',
             Message = ''the cron string cannot be empty when the trigger type is scheduled''\<rparr>]
      else [])"
proof -
  from assms(1) have "find stops (Filters (receiver h)) \<noteq> Some None"
    by (simp add: fst_Valid split: if_splits)
  with assms(2,3) show ?thesis
    unfolding reported_trigger by simp
qed

subsection \<open>The fields a call reads\<close>

lemma find_stops_types:
  "map (map_option Filter.Type) fs = map (map_option Filter.Type) gs \<Longrightarrow>
     (find stops fs = None \<longleftrightarrow> find stops gs = None) \<and>
     (find stops fs = Some None \<longleftrightarrow> find stops gs = Some None)"
proof (induction fs arbitrary: gs)
  case Nil
  then show ?case by simp
next
  case (Cons x fs)
  then obtain y gs' where gs: "gs = y # gs'"
    by (cases gs) auto
  with Cons.prems have xy: "map_option Filter.Type x = map_option Filter.Type y"
    and rest: "map (map_option Filter.Type) fs = map (map_option Filter.Type) gs'"
    by simp_all
  from xy have s: "stops x = stops y" and n: "x = None \<longleftrightarrow> y = None"
    by (cases x; cases y; simp add: stops_def)+
  from Cons.IH [OF rest] s n show ?case
    unfolding gs by auto
qed

lemma filters_part_conv:
  "(case r of Some (Some f) \<Rightarrow> xs | _ \<Rightarrow> []) = (if r = None \<or> r = Some None then [] else xs)"
  by (simp split: option.splits)

section \<open>The claims\<close>

text \<open>
  C1. For the policy \<^verbatim>\<open>Policy{Name:"p1", SrcRegistryID:0, DestRegistryID:5,
  SrcNamespaces:["library"], Filters:[], Trigger:nil}\<close> the call returns and reports
  no error: whatever the accumulator held before the call, it holds the same after it.
\<close>

theorem C1_p1_no_errors:
  "Valid \<lparr>receiver = policy_p1 t0, validation = v\<rparr> =
     (Normal, \<lparr>receiver = policy_p1 t0, validation = v\<rparr>) \<and>
   reported \<lparr>receiver = policy_p1 t0, validation = v\<rparr> = []"
  by (simp add: reported_def Valid_def trigger_checks_def policy_p1_def)

text \<open>
  C2. For every policy and every accumulator, the call reports an error with the field
  \<^verbatim>\<open>src_registry_id, dest_registry_id\<close> if and only if \<^verbatim>\<open>SrcRegistryID\<close> and
  \<^verbatim>\<open>DestRegistryID\<close> are both zero or both non-zero; when exactly one of the two is zero
  it reports no error with this field. The check stands before the loop over the
  filters, so this holds of calls that return and of calls that panic alike.
\<close>

theorem C2_registry_error_iff:
  "((\<exists>e\<in>set (reported h). Field e = ''src_registry_id, dest_registry_id'') \<longleftrightarrow>
      SrcRegistryID (receiver h) = 0 \<and> DestRegistryID (receiver h) = 0 \<or>
      SrcRegistryID (receiver h) \<noteq> 0 \<and> DestRegistryID (receiver h) \<noteq> 0) \<and>
   ((SrcRegistryID (receiver h) = 0) \<noteq> (DestRegistryID (receiver h) = 0) \<longrightarrow>
      \<not> (\<exists>e\<in>set (reported h). Field e = ''src_registry_id, dest_registry_id''))"
  unfolding Bex_filter_conv reported_registry by auto

text \<open>
  The witness: the blank policy has both identifiers zero and gets the error; the
  policy \<open>policy_p1\<close> has source 0 and destination 5 and gets none.
\<close>

theorem C2_registry_error_iff_witness:
  "(\<exists>e\<in>set (reported \<lparr>receiver = policy_blank () :: (unit, unit) Policy,
                           validation = \<lparr>Errors = []\<rparr>\<rparr>).
      Field e = ''src_registry_id, dest_registry_id'') \<and>
   \<not> (\<exists>e\<in>set (reported \<lparr>receiver = policy_p1 () :: (unit, unit) Policy,
                             validation = \<lparr>Errors = []\<rparr>\<rparr>).
      Field e = ''src_registry_id, dest_registry_id'')"
  using C2_registry_error_iff [of "\<lparr>receiver = policy_blank () :: (unit, unit) Policy,
                           validation = \<lparr>Errors = []\<rparr>\<rparr>"]
    C2_registry_error_iff [of "\<lparr>receiver = policy_p1 () :: (unit, unit) Policy,
                           validation = \<lparr>Errors = []\<rparr>\<rparr>"]
  by (simp add: policy_blank_def policy_p1_def)

text \<open>
  C3. For the policy \<^verbatim>\<open>Policy{Name:"", SrcRegistryID:0, DestRegistryID:0,
  SrcNamespaces:[]}\<close> the call returns and reports exactly three errors, in this order:
  one of the field \<^verbatim>\<open>name\<close>, one of the field \<^verbatim>\<open>src_registry_id, dest_registry_id\<close>,
  one of the field \<^verbatim>\<open>src_namespaces\<close>. They are appended to what the accumulator held.
\<close>

theorem C3_blank_three_errors:
  "Valid \<lparr>receiver = policy_blank t0, validation = v\<rparr> =
     (Normal,
      \<lparr>receiver = policy_blank t0,
       validation = v\<lparr>Errors := Errors v @
         [\<lparr>Field = ''name'', Message = ''cannot be empty''\<rparr>,
          \<lparr>Field = ''src_registry_id, dest_registry_id'',
           Message = ''one of them should be empty and the other one shouldn't be empty''\<rparr>,
          \<lparr>Field = ''src_namespaces'', Message = ''cannot be empty''\<rparr>]\<rparr>\<rparr>) \<and>
   reported \<lparr>receiver = policy_blank t0, validation = v\<rparr> =
     [\<lparr>Field = ''name'', Message = ''cannot be empty''\<rparr>,
      \<lparr>Field = ''src_registry_id, dest_registry_id'',
       Message = ''one of them should be empty and the other one shouldn't be empty''\<rparr>,
      \<lparr>Field = ''src_namespaces'', Message = ''cannot be empty''\<rparr>]"
  by (simp add: reported_def Valid_def trigger_checks_def policy_blank_def SetError_def)

text \<open>
  C4. For every policy with empty \<^verbatim>\<open>SrcNamespaces\<close> the call reports, under the field
  \<^verbatim>\<open>src_namespaces\<close>, the one error "cannot be empty" and nothing else (the loop over
  the entries is not run). For every policy with non-empty \<^verbatim>\<open>SrcNamespaces\<close> of which
  at least one entry is the empty string, it reports under that field the one error
  "cannot contain empty namespace", exactly once. The loop stops at the first empty
  entry: after entries \<open>pre\<close> none of which is empty and one empty entry, it has set
  that one error, whatever entries \<open>post\<close> follow.
\<close>

theorem C4_src_namespaces:
  "(SrcNamespaces (receiver h) = [] \<longrightarrow>
      filter (\<lambda>e. Field e = ''src_namespaces'') (reported h) =
        [\<lparr>Field = ''src_namespaces'', Message = ''cannot be empty''\<rparr>]) \<and>
   (SrcNamespaces (receiver h) \<noteq> [] \<and> [] \<in> set (SrcNamespaces (receiver h)) \<longrightarrow>
      filter (\<lambda>e. Field e = ''src_namespaces'') (reported h) =
        [\<lparr>Field = ''src_namespaces'', Message = ''cannot contain empty namespace''\<rparr>]) \<and>
   ([] \<notin> set pre \<longrightarrow>
      namespaces_loop (pre @ [] # post) v =
        SetError ''src_namespaces'' ''cannot contain empty namespace'' v)"
proof (intro conjI impI)
  assume "[] \<notin> set pre"
  then show "namespaces_loop (pre @ [] # post) v =
        SetError ''src_namespaces'' ''cannot contain empty namespace'' v"
    by (induction pre) simp_all
qed (simp_all add: reported_src_namespaces)

text \<open>
  The witness: the blank policy, whose \<^verbatim>\<open>SrcNamespaces\<close> are empty; the namespaces
  \<^verbatim>\<open>["a", "", "b"]\<close> of the claim; and the loop on \<^verbatim>\<open>["a", "", "b", ""]\<close>, where a
  second empty entry follows the first.
\<close>

theorem C4_src_namespaces_witness:
  "filter (\<lambda>e. Field e = ''src_namespaces'')
     (reported \<lparr>receiver = policy_blank () :: (unit, unit) Policy,
                validation = \<lparr>Errors = []\<rparr>\<rparr>) =
     [\<lparr>Field = ''src_namespaces'', Message = ''cannot be empty''\<rparr>] \<and>
   filter (\<lambda>e. Field e = ''src_namespaces'')
     (reported \<lparr>receiver = (policy_p1 () :: (unit, unit) Policy)\<lparr>SrcNamespaces := [''a'', [], ''b'']\<rparr>,
                validation = \<lparr>Errors = []\<rparr>\<rparr>) =
     [\<lparr>Field = ''src_namespaces'', Message = ''cannot contain empty namespace''\<rparr>] \<and>
   namespaces_loop ([''a''] @ [] # [''b'', []]) \<lparr>Errors = []\<rparr> =
     SetError ''src_namespaces'' ''cannot contain empty namespace'' \<lparr>Errors = []\<rparr>"
  using C4_src_namespaces [of "\<lparr>receiver = policy_blank () :: (unit, unit) Policy,
                validation = \<lparr>Errors = []\<rparr>\<rparr>" "[''a'']" "[''b'', []]" "\<lparr>Errors = []\<rparr>"]
    C4_src_namespaces [of "\<lparr>receiver = (policy_p1 () :: (unit, unit) Policy)\<lparr>SrcNamespaces := [''a'', [], ''b'']\<rparr>,
                validation = \<lparr>Errors = []\<rparr>\<rparr>" "[''a'']" "[''b'', []]" "\<lparr>Errors = []\<rparr>"]
  by (simp add: policy_blank_def policy_p1_def)

text \<open>
  C5. The claim: for every policy whose \<^verbatim>\<open>Filters\<close> hold at least one filter with a
  type outside resource, name, tag and label, the call reports the error "invalid filter
  type" of the field \<^verbatim>\<open>filters\<close> exactly once. The code does so when no \<^verbatim>\<open>nil\<close>
  pointer stands among the filters (\<open>filters_error_once_without_nil\<close>). On the policy
  \<open>policy_p1\<close> with \<^verbatim>\<open>Filters: []*Filter{nil, &Filter{Type: "bogus"}}\<close> the read of
  \<^verbatim>\<open>filter.Type\<close> through the \<^verbatim>\<open>nil\<close> pointer panics before the second filter is
  looked at: the call ends in a panic and has reported nothing.
\<close>

theorem C5_nil_filter_panics:
  "Valid \<lparr>receiver = (policy_p1 t0)\<lparr>Filters := [None, Some \<lparr>Filter.Type = ''bogus'', Value = x\<rparr>]\<rparr>,
          validation = v\<rparr> =
     (Panic,
      \<lparr>receiver = (policy_p1 t0)\<lparr>Filters := [None, Some \<lparr>Filter.Type = ''bogus'', Value = x\<rparr>]\<rparr>,
       validation = v\<rparr>) \<and>
   reported \<lparr>receiver = (policy_p1 t0)\<lparr>Filters := [None, Some \<lparr>Filter.Type = ''bogus'', Value = x\<rparr>]\<rparr>,
             validation = v\<rparr> = []"
  by (simp add: reported_def Valid_def policy_p1_def)

text \<open>
  C6. The claim: for every policy whose trigger has the type scheduled and no settings,
  or an empty cron string, the call reports the error of the field \<^verbatim>\<open>trigger\<close> that
  the cron string cannot be empty; with a non-empty cron string it reports no error of
  that field. The code does so in every call that returns
  (\<open>scheduled_trigger_when_returning\<close>). On the policy \<open>policy_p1\<close> with
  \<^verbatim>\<open>Filters: []*Filter{nil}\<close> and \<^verbatim>\<open>Trigger: &Trigger{Type: "scheduled"}\<close> the loop
  over the filters panics, the trigger is never looked at, and nothing is reported.
\<close>

theorem C6_nil_filter_skips_trigger:
  "Valid \<lparr>receiver = (policy_p1 t0)\<lparr>Filters := [None],
                         Trigger := Some \<lparr>Trigger.Type = ''scheduled'', Settings = None\<rparr>\<rparr>,
          validation = v\<rparr> =
     (Panic,
      \<lparr>receiver = (policy_p1 t0)\<lparr>Filters := [None],
                         Trigger := Some \<lparr>Trigger.Type = ''scheduled'', Settings = None\<rparr>\<rparr>,
       validation = v\<rparr>) \<and>
   reported \<lparr>receiver = (policy_p1 t0)\<lparr>Filters := [None],
                         Trigger := Some \<lparr>Trigger.Type = ''scheduled'', Settings = None\<rparr>\<rparr>,
             validation = v\<rparr> = []"
  by (simp add: reported_def Valid_def policy_p1_def)

text \<open>
  C7. The claim: some trigger (one of unknown type and without settings, say) makes the
  call report both "invalid trigger type" and the error of the empty cron string. It
  does not hold: the second test of the source asks for the type scheduled, which the
  first test accepts. On the trigger \<^verbatim>\<open>&Trigger{Type: "bogus"}\<close> the call reports
  "invalid trigger type" alone, and no heap makes a call report both.
\<close>

theorem C7_both_trigger_errors_counterexample:
  "reported \<lparr>receiver = (policy_p1 () :: (unit, unit) Policy)
                \<lparr>Trigger := Some \<lparr>Trigger.Type = ''bogus'', Settings = None\<rparr>\<rparr>,
             validation = \<lparr>Errors = []\<rparr>\<rparr> =
     [\<lparr>Field = ''trigger'', Message = ''invalid trigger type''\<rparr>] \<and>
   \<not> (\<exists>h :: ('a, 't) heap.
        \<lparr>Field = ''trigger'', Message = ''invalid trigger type''\<rparr> \<in> set (reported h) \<and>
        \<lparr>Field = ''trigger'',
         Message = ''the cron string cannot be empty when the trigger type is scheduled''\<rparr>
          \<in> set (reported h))"
proof
  show "reported \<lparr>receiver = (policy_p1 () :: (unit, unit) Policy)
                \<lparr>Trigger := Some \<lparr>Trigger.Type = ''bogus'', Settings = None\<rparr>\<rparr>,
             validation = \<lparr>Errors = []\<rparr>\<rparr> =
     [\<lparr>Field = ''trigger'', Message = ''invalid trigger type''\<rparr>]"
    by (simp add: reported_def Valid_def trigger_checks_def policy_p1_def SetError_def consts_defs)
next
  show "\<not> (\<exists>h :: ('a, 't) heap.
        \<lparr>Field = ''trigger'', Message = ''invalid trigger type''\<rparr> \<in> set (reported h) \<and>
        \<lparr>Field = ''trigger'',
         Message = ''the cron string cannot be empty when the trigger type is scheduled''\<rparr>
          \<in> set (reported h))"
    using not_both_trigger_errors by blast
qed

text \<open>
  C7, as amended. No trigger makes a call report both errors: for every policy the two
  tests on the trigger exclude each other, and a call reports at most one error of the
  field \<^verbatim>\<open>trigger\<close>. "invalid trigger type" is reported only for a trigger that is not
  \<^verbatim>\<open>nil\<close> and whose type is none of manual, scheduled and event_based; the error of the
  empty cron string only for a trigger that is not \<^verbatim>\<open>nil\<close>, whose type is scheduled and
  whose settings are \<^verbatim>\<open>nil\<close> or have an empty cron string. In every call that returns,
  as every call does on a policy with no \<^verbatim>\<open>nil\<close> pointer among its filters, these
  conditions are also sufficient: the errors of the field \<^verbatim>\<open>trigger\<close> are exactly
  "invalid trigger type" for a type outside the three, whatever the settings, exactly
  the error of the empty cron string for the type scheduled without a cron string, and
  none otherwise.
\<close>

theorem C7_trigger_checks_exclusive:
  "length (filter (\<lambda>e. Field e = ''trigger'') (reported h)) \<le> 1 \<and>
   \<not> (\<lparr>Field = ''trigger'', Message = ''invalid trigger type''\<rparr> \<in> set (reported h) \<and>
      \<lparr>Field = ''trigger'',
       Message = ''the cron string cannot be empty when the trigger type is scheduled''\<rparr>
        \<in> set (reported h)) \<and>
   (\<lparr>Field = ''trigger'', Message = ''invalid trigger type''\<rparr> \<in> set (reported h) \<longrightarrow>
      (\<exists>t. Trigger (receiver h) = Some t \<and>
           Trigger.Type t \<notin> {TriggerTypeManual, TriggerTypeScheduled, TriggerTypeEventBased})) \<and>
   (\<lparr>Field = ''trigger'',
     Message = ''the cron string cannot be empty when the trigger type is scheduled''\<rparr>
      \<in> set (reported h) \<longrightarrow>
      (\<exists>t. Trigger (receiver h) = Some t \<and> Trigger.Type t = TriggerTypeScheduled \<and>
           (case Settings t of None \<Rightarrow> True | Some s \<Rightarrow> Cron s = []))) \<and>
   (None \<notin> set (Filters (receiver h)) \<longrightarrow> fst (Valid h) = Normal) \<and>
   (fst (Valid h) = Normal \<longrightarrow>
      filter (\<lambda>e. Field e = ''trigger'') (reported h) =
        (case Trigger (receiver h) of
           None \<Rightarrow> []
         | Some t \<Rightarrow>
             if Trigger.Type t \<notin> {TriggerTypeManual, TriggerTypeScheduled, TriggerTypeEventBased}
             then [\<lparr>Field = ''trigger'', Message = ''invalid trigger type''\<rparr>]
             else if Trigger.Type t = TriggerTypeScheduled \<and>
                     (case Settings t of None \<Rightarrow> True | Some s \<Rightarrow> Cron s = [])
             then [\<lparr>Field = ''trigger'',
                    Message = ''the cron string cannot be empty when the trigger type is scheduled''\<rparr>]
             else []))"
proof (intro conjI impI)
  show "length (filter (\<lambda>e. Field e = ''trigger'') (reported h)) \<le> 1"
    using reported_trigger_cases [of h] by (elim disjE) simp_all
next
  show "\<not> (\<lparr>Field = ''trigger'', Message = ''invalid trigger type''\<rparr> \<in> set (reported h) \<and>
      \<lparr>Field = ''trigger'',
       Message = ''the cron string cannot be empty when the trigger type is scheduled''\<rparr>
        \<in> set (reported h))"
    by (rule not_both_trigger_errors)
next
  assume "\<lparr>Field = ''trigger'', Message = ''invalid trigger type''\<rparr> \<in> set (reported h)"
  then have "\<lparr>Field = ''trigger'', Message = ''invalid trigger type''\<rparr>
      \<in> set (filter (\<lambda>e. Field e = ''trigger'') (reported h))"
    by simp
  then show "\<exists>t. Trigger (receiver h) = Some t \<and>
           Trigger.Type t \<notin> {TriggerTypeManual, TriggerTypeScheduled, TriggerTypeEventBased}"
    unfolding reported_trigger
    by (cases "Trigger (receiver h)") (simp_all split: if_splits)
next
  assume "\<lparr>Field = ''trigger'',
     Message = ''the cron string cannot be empty when the trigger type is scheduled''\<rparr>
      \<in> set (reported h)"
  then have "\<lparr>Field = ''trigger'',
     Message = ''the cron string cannot be empty when the trigger type is scheduled''\<rparr>
      \<in> set (filter (\<lambda>e. Field e = ''trigger'') (reported h))"
    by simp
  then show "\<exists>t. Trigger (receiver h) = Some t \<and> Trigger.Type t = TriggerTypeScheduled \<and>
           (case Settings t of None \<Rightarrow> True | Some s \<Rightarrow> Cron s = [])"
    unfolding reported_trigger
    by (cases "Trigger (receiver h)") (simp_all split: if_splits)
next
  assume "None \<notin> set (Filters (receiver h))"
  then show "fst (Valid h) = Normal"
    by (rule filters_error_once_without_nil(1))
next
  assume "fst (Valid h) = Normal"
  then have "find stops (Filters (receiver h)) \<noteq> Some None"
    by (simp add: fst_Valid split: if_splits)
  then show "filter (\<lambda>e. Field e = ''trigger'') (reported h) =
        (case Trigger (receiver h) of
           None \<Rightarrow> []
         | Some t \<Rightarrow>
             if Trigger.Type t \<notin> {TriggerTypeManual, TriggerTypeScheduled, TriggerTypeEventBased}
             then [\<lparr>Field = ''trigger'', Message = ''invalid trigger type''\<rparr>]
             else if Trigger.Type t = TriggerTypeScheduled \<and>
                     (case Settings t of None \<Rightarrow> True | Some s \<Rightarrow> Cron s = [])
             then [\<lparr>Field = ''trigger'',
                    Message = ''the cron string cannot be empty when the trigger type is scheduled''\<rparr>]
             else [])"
    unfolding reported_trigger by simp
qed

text \<open>
  The witness: on \<open>policy_p1\<close>, which has no filters, a trigger of the unknown type
  \<^verbatim>\<open>"unknown"\<close> without settings gets "invalid trigger type" and nothing else of the
  field; a trigger of the type scheduled with an empty cron string gets the error of
  the empty cron string and nothing else of the field.
\<close>

theorem C7_trigger_checks_exclusive_witness:
  "None \<notin> set (Filters (receiver
      \<lparr>receiver = (policy_p1 () :: (unit, unit) Policy)
          \<lparr>Trigger := Some \<lparr>Trigger.Type = ''unknown'', Settings = None\<rparr>\<rparr>,
       validation = \<lparr>Errors = []\<rparr>\<rparr>)) \<and>
   fst (Valid \<lparr>receiver = (policy_p1 () :: (unit, unit) Policy)
          \<lparr>Trigger := Some \<lparr>Trigger.Type = ''unknown'', Settings = None\<rparr>\<rparr>,
       validation = \<lparr>Errors = []\<rparr>\<rparr>) = Normal \<and>
   filter (\<lambda>e. Field e = ''trigger'')
     (reported \<lparr>receiver = (policy_p1 () :: (unit, unit) Policy)
          \<lparr>Trigger := Some \<lparr>Trigger.Type = ''unknown'', Settings = None\<rparr>\<rparr>,
       validation = \<lparr>Errors = []\<rparr>\<rparr>) =
     [\<lparr>Field = ''trigger'', Message = ''invalid trigger type''\<rparr>] \<and>
   \<lparr>Field = ''trigger'', Message = ''invalid trigger type''\<rparr>
     \<in> set (reported \<lparr>receiver = (policy_p1 () :: (unit, unit) Policy)
          \<lparr>Trigger := Some \<lparr>Trigger.Type = ''unknown'', Settings = None\<rparr>\<rparr>,
       validation = \<lparr>Errors = []\<rparr>\<rparr>) \<and>
   \<lparr>Field = ''trigger'',
     Message = ''the cron string cannot be empty when the trigger type is scheduled''\<rparr>
     \<in> set (reported \<lparr>receiver = (policy_p1 () :: (unit, unit) Policy)
          \<lparr>Trigger := Some \<lparr>Trigger.Type = ''scheduled'', Settings = Some \<lparr>Cron = []\<rparr>\<rparr>\<rparr>,
       validation = \<lparr>Errors = []\<rparr>\<rparr>) \<and>
   filter (\<lambda>e. Field e = ''trigger'')
     (reported \<lparr>receiver = (policy_p1 () :: (unit, unit) Policy)
          \<lparr>Trigger := Some \<lparr>Trigger.Type = ''scheduled'', Settings = Some \<lparr>Cron = []\<rparr>\<rparr>\<rparr>,
       validation = \<lparr>Errors = []\<rparr>\<rparr>) =
     [\<lparr>Field = ''trigger'',
       Message = ''the cron string cannot be empty when the trigger type is scheduled''\<rparr>]"
  using C7_trigger_checks_exclusive [of "\<lparr>receiver = (policy_p1 () :: (unit, unit) Policy)
          \<lparr>Trigger := Some \<lparr>Trigger.Type = ''unknown'', Settings = None\<rparr>\<rparr>,
       validation = \<lparr>Errors = []\<rparr>\<rparr>"]
    C7_trigger_checks_exclusive [of "\<lparr>receiver = (policy_p1 () :: (unit, unit) Policy)
          \<lparr>Trigger := Some \<lparr>Trigger.Type = ''scheduled'', Settings = Some \<lparr>Cron = []\<rparr>\<rparr>\<rparr>,
       validation = \<lparr>Errors = []\<rparr>\<rparr>"]
  by (simp add: reported_def Valid_def trigger_checks_def policy_p1_def SetError_def consts_defs)

text \<open>
  C8. For every policy whose \<^verbatim>\<open>Trigger\<close> is \<^verbatim>\<open>nil\<close> the call reports no error of the
  field \<^verbatim>\<open>trigger\<close>, whatever the other fields and the accumulator hold.
\<close>

theorem C8_nil_trigger_no_trigger_error:
  "Trigger (receiver h) = None \<Longrightarrow> \<not> (\<exists>e\<in>set (reported h). Field e = ''trigger'')"
  unfolding Bex_filter_conv reported_trigger by simp

text \<open>The witness: the blank policy, whose trigger is \<^verbatim>\<open>nil\<close>.\<close>

theorem C8_nil_trigger_no_trigger_error_witness:
  "Trigger (policy_blank () :: (unit, unit) Policy) = None \<and>
   \<not> (\<exists>e\<in>set (reported \<lparr>receiver = policy_blank () :: (unit, unit) Policy,
                             validation = \<lparr>Errors = []\<rparr>\<rparr>). Field e = ''trigger'')"
proof -
  have t: "Trigger (receiver \<lparr>receiver = policy_blank () :: (unit, unit) Policy,
                             validation = \<lparr>Errors = []\<rparr>\<rparr>) = None"
    by (simp add: policy_blank_def)
  show ?thesis
    using t C8_nil_trigger_no_trigger_error [OF t] by simp
qed

text \<open>
  C9. A call leaves the policy as it was: the receiver after the call is the receiver
  before it, so every field of the policy, of its filters, of its trigger and of the
  trigger's settings is unchanged. The heap after the call is the heap before it with
  the reported errors appended to the accumulator, and nothing else changed. This holds
  of calls that return and of calls that panic.
\<close>

theorem C9_policy_unchanged:
  "receiver (snd (Valid h)) = receiver h \<and>
   snd (Valid h) =
     h\<lparr>validation := (validation h)\<lparr>Errors := Errors (validation h) @ reported h\<rparr>\<rparr>"
proof -
  obtain w where w: "snd (Valid h) = h\<lparr>validation := w\<rparr>"
    using snd_Valid [of h] by blast
  then have "validation (snd (Valid h)) = w"
    by simp
  with Errors_Valid [of h] have "Errors w = Errors (validation h) @ reported h"
    by simp
  then have "w = (validation h)\<lparr>Errors := Errors (validation h) @ reported h\<rparr>"
    by (intro Validation_eqI) simp
  with w show ?thesis
    by simp
qed

text \<open>
  C10. Two policies that agree on \<^verbatim>\<open>Name\<close>, \<^verbatim>\<open>SrcRegistryID\<close>, \<^verbatim>\<open>DestRegistryID\<close>,
  \<^verbatim>\<open>SrcNamespaces\<close>, the types of their filters in order (a \<^verbatim>\<open>nil\<close> pointer in the
  same places) and the trigger get the same reported errors and the same outcome,
  however they differ in \<^verbatim>\<open>ID\<close>, \<^verbatim>\<open>Description\<close>, \<^verbatim>\<open>Creator\<close>, \<^verbatim>\<open>DestNamespace\<close>,
  the values of the filters (which may even be of different types), \<^verbatim>\<open>Deletion\<close>,
  \<^verbatim>\<open>Override\<close>, \<^verbatim>\<open>Enabled\<close>, \<^verbatim>\<open>CreationTime\<close> and \<^verbatim>\<open>UpdateTime\<close>, and whatever the
  two accumulators held. In particular \<^verbatim>\<open>DestNamespace\<close> is not validated: setting it
  to any string leaves the reported errors as they were.
\<close>

theorem C10_depends_only_on_validated_fields:
  fixes p :: "('a, 't) Policy" and q :: "('b, 'u) Policy"
  assumes "Name p = Name q"
    and "SrcRegistryID p = SrcRegistryID q"
    and "DestRegistryID p = DestRegistryID q"
    and "SrcNamespaces p = SrcNamespaces q"
    and "map (map_option Filter.Type) (Filters p) = map (map_option Filter.Type) (Filters q)"
    and "Trigger p = Trigger q"
  shows "reported \<lparr>receiver = p, validation = v\<rparr> = reported \<lparr>receiver = q, validation = w\<rparr> \<and>
         fst (Valid \<lparr>receiver = p, validation = v\<rparr>) = fst (Valid \<lparr>receiver = q, validation = w\<rparr>) \<and>
         reported \<lparr>receiver = p\<lparr>DestNamespace := dn\<rparr>, validation = v\<rparr> =
           reported \<lparr>receiver = p, validation = v\<rparr>"
proof -
  note st = find_stops_types [OF assms(5)]
  have "reported \<lparr>receiver = p, validation = v\<rparr> = reported \<lparr>receiver = q, validation = w\<rparr>"
    unfolding reported_eq filters_part_conv
    using assms(1-4,6) st by simp
  moreover have "fst (Valid \<lparr>receiver = p, validation = v\<rparr>) =
      fst (Valid \<lparr>receiver = q, validation = w\<rparr>)"
    unfolding fst_Valid using st by simp
  moreover have "reported \<lparr>receiver = p\<lparr>DestNamespace := dn\<rparr>, validation = v\<rparr> =
           reported \<lparr>receiver = p, validation = v\<rparr>"
    unfolding reported_eq by simp
  ultimately show ?thesis by blast
qed

text \<open>
  The witness: two policies with the same validated fields and different values in all
  the others, the first with filter values of type \<open>nat\<close>, the second of type
  \<open>string\<close>, on different accumulators.
\<close>

theorem C10_depends_only_on_validated_fields_witness:
  "reported \<lparr>receiver =
       \<lparr>ID = 1, Name = ''p1'', Description = ''first'', Creator = ''admin'',
        SrcRegistryID = 0, SrcNamespaces = [''library''], DestRegistryID = 5,
        DestNamespace = [], Filters = [Some \<lparr>Filter.Type = ''bogus'', Value = (1 :: nat)\<rparr>],
        Trigger = Some \<lparr>Trigger.Type = ''scheduled'', Settings = None\<rparr>,
        Deletion = False, Override = False, Enabled = False,
        CreationTime = (0 :: nat), UpdateTime = 0\<rparr>,
      validation = \<lparr>Errors = []\<rparr>\<rparr> =
   reported \<lparr>receiver =
       \<lparr>ID = 2, Name = ''p1'', Description = ''second'', Creator = ''guest'',
        SrcRegistryID = 0, SrcNamespaces = [''library''], DestRegistryID = 5,
        DestNamespace = ''mirror'', Filters = [Some \<lparr>Filter.Type = ''bogus'', Value = ''v''\<rparr>],
        Trigger = Some \<lparr>Trigger.Type = ''scheduled'', Settings = None\<rparr>,
        Deletion = True, Override = True, Enabled = True,
        CreationTime = True, UpdateTime = False\<rparr>,
      validation = \<lparr>Errors = [\<lparr>Field = ''other'', Message = ''earlier''\<rparr>]\<rparr>\<rparr>"
  using C10_depends_only_on_validated_fields
    [of "\<lparr>ID = 1, Name = ''p1'', Description = ''first'', Creator = ''admin'',
        SrcRegistryID = 0, SrcNamespaces = [''library''], DestRegistryID = 5,
        DestNamespace = [], Filters = [Some \<lparr>Filter.Type = ''bogus'', Value = (1 :: nat)\<rparr>],
        Trigger = Some \<lparr>Trigger.Type = ''scheduled'', Settings = None\<rparr>,
        Deletion = False, Override = False, Enabled = False,
        CreationTime = (0 :: nat), UpdateTime = 0\<rparr>"
      "\<lparr>ID = 2, Name = ''p1'', Description = ''second'', Creator = ''guest'',
        SrcRegistryID = 0, SrcNamespaces = [''library''], DestRegistryID = 5,
        DestNamespace = ''mirror'', Filters = [Some \<lparr>Filter.Type = ''bogus'', Value = ''v''\<rparr>],
        Trigger = Some \<lparr>Trigger.Type = ''scheduled'', Settings = None\<rparr>,
        Deletion = True, Override = True, Enabled = True,
        CreationTime = True, UpdateTime = False\<rparr>"
      "\<lparr>Errors = []\<rparr>" "\<lparr>Errors = [\<lparr>Field = ''other'', Message = ''earlier''\<rparr>]\<rparr>"]
  by simp

end
